theory Spec2Isabelle
  imports Complex_Main
begin

section \<open>JavaScript values\<close>

text \<open>
  The server of \<^verbatim>\<open>src/server/index.js\<close> works on untyped JavaScript values: the request
  body that \<^verbatim>\<open>express.json\<close> parsed, and what the program computes from it. A value is
  modelled by \<open>jsval\<close>. A number is a double: \<open>NaN\<close>, the two infinities, or a finite
  double, represented by the rational it denotes (\<open>-0\<close> and \<open>+0\<close> are both \<open>Fin 0\<close>; they
  are equally falsy). A string is the list of its code units, here those below 256. An
  object is the list of its own properties in creation order; a parsed JSON object never
  holds the same key twice.
\<close>

datatype jsnum = NaN | PosInf | NegInf | Fin rat

datatype jsval =
    Undefined
  | Null
  | Bool bool
  | Num jsnum
  | Str string
  | Arr "jsval list"
  | Obj "(string \<times> jsval) list"

text \<open>
  An exception is a value: \<open>TypeError m\<close> is the engine's \<^verbatim>\<open>TypeError\<close> with message \<open>m\<close>,
  \<open>Rejected m\<close> an error with message \<open>m\<close> that an external client threw.
\<close>

datatype js_error = TypeError string | Rejected string

type_synonym 'a result = "js_error + 'a"

definition and_then :: "'a result \<Rightarrow> ('a \<Rightarrow> 'b result) \<Rightarrow> 'b result" where
  "and_then r f = (case r of Inl e \<Rightarrow> Inl e | Inr v \<Rightarrow> f v)"

fun sequence :: "'a result list \<Rightarrow> 'a list result" where
  "sequence [] = Inr []"
| "sequence (r # rs) =
     (case r of
        Inl e \<Rightarrow> Inl e
      | Inr v \<Rightarrow> (case sequence rs of Inl e \<Rightarrow> Inl e | Inr vs \<Rightarrow> Inr (v # vs)))"

text \<open>
  The built-ins whose results the source does not determine are parameters of the model:
  the JSON parser (\<open>None\<close> is its \<^verbatim>\<open>SyntaxError\<close>), the serializer
  \<^verbatim>\<open>JSON.stringify(v, null, 2)\<close>, the conversions between strings and numbers, and the
  host locale's number format. Every theorem below holds for all of them alike.
\<close>

record platform =
  JSON_parse :: "string \<Rightarrow> jsval option"
  JSON_stringify :: "jsval \<Rightarrow> string"
  StringToNumber :: "string \<Rightarrow> jsnum"
  NumberToString :: "jsnum \<Rightarrow> string"
  toLocaleString :: "jsnum \<Rightarrow> string"

text \<open>\<^verbatim>\<open>ToBoolean\<close>, and the operator \<^verbatim>\<open>a || b\<close>.\<close>

fun truthy :: "jsval \<Rightarrow> bool" where
  "truthy Undefined = False"
| "truthy Null = False"
| "truthy (Bool b) = b"
| "truthy (Num n) = (n \<noteq> NaN \<and> n \<noteq> Fin 0)"
| "truthy (Str s) = (s \<noteq> [])"
| "truthy (Arr xs) = True"
| "truthy (Obj kvs) = True"

definition js_or :: "jsval \<Rightarrow> jsval \<Rightarrow> jsval" where
  "js_or a b = (if truthy a then a else b)"

text \<open>
  \<^verbatim>\<open>ToString\<close>. An array joins its elements with commas, \<^verbatim>\<open>null\<close> and
  \<^verbatim>\<open>undefined\<close> as the empty string. A plain object is \<^verbatim>\<open>[object Object]\<close> through the
  inherited \<^verbatim>\<open>toString\<close>, unless an own property of that name hides it: no value of
  \<open>jsval\<close> is callable, the inherited \<^verbatim>\<open>valueOf\<close> returns the object itself, and the
  conversion throws.
\<close>

fun intersperse :: "string \<Rightarrow> string list \<Rightarrow> string" where
  "intersperse sep [] = []"
| "intersperse sep [s] = s"
| "intersperse sep (s # t # ts) = s @ sep @ intersperse sep (t # ts)"

definition no_primitive :: string where
  "no_primitive = ''Cannot convert object to primitive value''"

fun ToString :: "platform \<Rightarrow> jsval \<Rightarrow> string result"
  and element_string :: "platform \<Rightarrow> jsval \<Rightarrow> string result"
  and element_strings :: "platform \<Rightarrow> jsval list \<Rightarrow> string list result" where
  "ToString B Undefined = Inr ''undefined''"
| "ToString B Null = Inr ''null''"
| "ToString B (Bool b) = Inr (if b then ''true'' else ''false'')"
| "ToString B (Num n) = Inr (NumberToString B n)"
| "ToString B (Str s) = Inr s"
| "ToString B (Arr xs) =
     (case element_strings B xs of Inl e \<Rightarrow> Inl e | Inr ss \<Rightarrow> Inr (intersperse '','' ss))"
| "ToString B (Obj kvs) =
     (if ''toString'' \<in> set (map fst kvs) then Inl (TypeError no_primitive)
      else Inr ''[object Object]'')"
| "element_string B Undefined = Inr []"
| "element_string B Null = Inr []"
| "element_string B (Bool b) = ToString B (Bool b)"
| "element_string B (Num n) = ToString B (Num n)"
| "element_string B (Str s) = ToString B (Str s)"
| "element_string B (Arr xs) = ToString B (Arr xs)"
| "element_string B (Obj kvs) = ToString B (Obj kvs)"
| "element_strings B [] = Inr []"
| "element_strings B (x # xs) =
     (case element_string B x of
        Inl e \<Rightarrow> Inl e
      | Inr s \<Rightarrow> (case element_strings B xs of Inl e \<Rightarrow> Inl e | Inr ss \<Rightarrow> Inr (s # ss)))"

text \<open>
  \<^verbatim>\<open>ToNumber\<close>, which \<^verbatim>\<open>Number(v)\<close> applies: an array or object is first converted to a
  primitive, which for these values is their string.
\<close>

fun ToNumber :: "platform \<Rightarrow> jsval \<Rightarrow> jsnum result" where
  "ToNumber B Undefined = Inr NaN"
| "ToNumber B Null = Inr (Fin 0)"
| "ToNumber B (Bool b) = Inr (Fin (if b then 1 else 0))"
| "ToNumber B (Num n) = Inr n"
| "ToNumber B (Str s) = Inr (StringToNumber B s)"
| "ToNumber B (Arr xs) =
     (case ToString B (Arr xs) of Inl e \<Rightarrow> Inl e | Inr s \<Rightarrow> Inr (StringToNumber B s))"
| "ToNumber B (Obj kvs) =
     (case ToString B (Obj kvs) of Inl e \<Rightarrow> Inl e | Inr s \<Rightarrow> Inr (StringToNumber B s))"

section \<open>Record Normalizer\<close>

text \<open>
  A property read \<^verbatim>\<open>item.name\<close>, for the fifteen names that \<^verbatim>\<open>normalizeRecords\<close> reads and
  the three that the request handler reads. None of them is a property of a built-in
  prototype, an array index or \<^verbatim>\<open>length\<close>, so the read finds an own property of a plain
  object or nothing; on \<^verbatim>\<open>null\<close> and \<^verbatim>\<open>undefined\<close> it throws.
\<close>

definition cannot_read :: "string \<Rightarrow> string \<Rightarrow> string" where
  "cannot_read what name =
     ''Cannot read properties of '' @ what @ '' (reading '' @ [CHR 0x27] @ name @ [CHR 0x27] @ '')''"

fun field :: "jsval \<Rightarrow> string \<Rightarrow> jsval result" where
  "field Undefined name = Inl (TypeError (cannot_read ''undefined'' name))"
| "field Null name = Inl (TypeError (cannot_read ''null'' name))"
| "field (Obj kvs) name = Inr (case map_of kvs name of None \<Rightarrow> Undefined | Some v \<Rightarrow> v)"
| "field v name = Inr Undefined"

text \<open>
  \<^verbatim>\<open>item.a || item.b || ... || dflt\<close>: the reads happen from left to right and stop at the
  first truthy one.
\<close>

fun first_truthy :: "jsval \<Rightarrow> string list \<Rightarrow> jsval \<Rightarrow> jsval result" where
  "first_truthy item [] dflt = Inr dflt"
| "first_truthy item (name # names) dflt =
     (case field item name of
        Inl e \<Rightarrow> Inl e
      | Inr v \<Rightarrow> if truthy v then Inr v else first_truthy item names dflt)"

record sales_record =
  customer :: jsval
  brand :: jsval
  season :: jsval
  stage :: jsval
  amount :: jsnum
  notes' :: jsval

text \<open>Line 76: \<^verbatim>\<open>Number(item.amount || item.value || item.revenue || item.total || 0)\<close>.\<close>

definition amount_fields :: "string list" where
  "amount_fields = [''amount'', ''value'', ''revenue'', ''total'']"

definition coerced_amount :: "platform \<Rightarrow> jsval \<Rightarrow> jsnum result" where
  "coerced_amount B item = and_then (first_truthy item amount_fields (Num (Fin 0))) (ToNumber B)"

text \<open>
  An element lacks an amount when every one of the four reads gives a falsy value: the
  property is absent, or what it holds is falsy.
\<close>

definition lacks_amount :: "jsval \<Rightarrow> bool" where
  "lacks_amount item =
     list_all (\<lambda>name. case field item name of Inl e \<Rightarrow> False | Inr v \<Rightarrow> \<not> truthy v) amount_fields"

text \<open>The arrow function of lines 71-78, applied to one element of the parsed list.\<close>

definition normalizeItem :: "platform \<Rightarrow> jsval \<Rightarrow> sales_record result" where
  "normalizeItem B item =
     and_then (first_truthy item [''customer'', ''account''] (Str ''Unknown Customer'')) (\<lambda>c.
     and_then (first_truthy item [''brand'', ''category''] (Str ''Unknown Brand'')) (\<lambda>b.
     and_then (first_truthy item [''season'', ''quarter'', ''period''] (Str ''Unspecified'')) (\<lambda>s.
     and_then (first_truthy item [''stage'', ''pipelineStage''] (Str ''unspecified'')) (\<lambda>g.
     and_then (coerced_amount B item) (\<lambda>n.
     and_then (first_truthy item [''notes'', ''comment''] (Str [])) (\<lambda>t.
     Inr \<lparr>customer = c, brand = b, season = s, stage = g, amount = n, notes' = t\<rparr>))))))"

record normalized =
  raw :: string
  records :: "sales_record list"

text \<open>Lines 69-80: \<^verbatim>\<open>Array.isArray(parsed) ? parsed.map(...).filter(...) : []\<close>.\<close>

definition toRecords :: "platform \<Rightarrow> jsval \<Rightarrow> sales_record list result" where
  "toRecords B parsed =
     (case parsed of
        Arr items \<Rightarrow>
          and_then (sequence (map (normalizeItem B) items))
            (\<lambda>rs. Inr (filter (\<lambda>r. amount r \<noteq> NaN) rs))
      | _ \<Rightarrow> Inr [])"

definition normalizeRecords :: "platform \<Rightarrow> jsval \<Rightarrow> normalized result" where
  "normalizeRecords B data =
     (if \<not> truthy data then Inr \<lparr>raw = [], records = []\<rparr>
      else
        let (raw0, parsed) =
          (case data of
             Str s \<Rightarrow> (s, (case JSON_parse B s of None \<Rightarrow> Arr [] | Some v \<Rightarrow> v))
           | Arr xs \<Rightarrow> (JSON_stringify B data, data)
           | Obj kvs \<Rightarrow> (JSON_stringify B data, Arr [data])
           | _ \<Rightarrow> ([], Arr []))
        in and_then (toRecords B parsed) (\<lambda>rs. Inr \<lparr>raw = raw0, records = rs\<rparr>))"

section \<open>Plain objects\<close>

text \<open>
  A read \<^verbatim>\<open>obj[key]\<close> on an object that an object literal created falls back on
  \<^verbatim>\<open>Object.prototype\<close> when \<open>key\<close> is no own property: there it finds the built-in
  methods, \<^verbatim>\<open>constructor\<close>, and the accessor \<^verbatim>\<open>__proto__\<close>, which returns
  \<^verbatim>\<open>Object.prototype\<close> itself. All of them are truthy. As strings, a built-in function is
  its source text and the prototype is \<^verbatim>\<open>[object Object]\<close>.
\<close>

datatype inherited = NativeFunction string | ObjectPrototype

definition Object_prototype :: "string \<Rightarrow> inherited option" where
  "Object_prototype name =
     (if name = ''__proto__'' then Some ObjectPrototype
      else if name = ''constructor'' then Some (NativeFunction ''Object'')
      else if name \<in> set [''toString'', ''toLocaleString'', ''valueOf'', ''hasOwnProperty'',
                ''isPrototypeOf'', ''propertyIsEnumerable'', ''__defineGetter__'',
                ''__defineSetter__'', ''__lookupGetter__'', ''__lookupSetter__'']
      then Some (NativeFunction name)
      else None)"

fun inherited_text :: "inherited \<Rightarrow> string" where
  "inherited_text (NativeFunction name) = ''function '' @ name @ ''() { [native code] }''"
| "inherited_text ObjectPrototype = ''[object Object]''"

datatype looked = Own jsval | Inherited inherited | Absent

definition get_property :: "(string \<times> jsval) list \<Rightarrow> string \<Rightarrow> looked" where
  "get_property kvs name =
     (case map_of kvs name of
        Some v \<Rightarrow> Own v
      | None \<Rightarrow> (case Object_prototype name of Some i \<Rightarrow> Inherited i | None \<Rightarrow> Absent))"

text \<open>
  An assignment \<^verbatim>\<open>obj[key] = v\<close> of a primitive \<open>v\<close>: it updates the own property or
  appends a new one; under the key \<^verbatim>\<open>__proto__\<close> it runs the inherited setter, which
  ignores a primitive.
\<close>

fun put :: "(string \<times> jsval) list \<Rightarrow> string \<Rightarrow> jsval \<Rightarrow> (string \<times> jsval) list" where
  "put [] k v = [(k, v)]"
| "put ((k', v') # kvs) k v = (if k' = k then (k, v) # kvs else (k', v') # put kvs k v)"

definition set_property :: "(string \<times> jsval) list \<Rightarrow> string \<Rightarrow> jsval \<Rightarrow> (string \<times> jsval) list" where
  "set_property kvs k v = (if k = ''__proto__'' then kvs else put kvs k v)"

text \<open>
  The own keys are enumerated with the array indices first, in ascending order, and the
  other keys after them in creation order. An array index is the canonical decimal string
  of a number up to \<open>2^32 - 2\<close>.
\<close>

definition is_digit :: "char \<Rightarrow> bool" where
  "is_digit c = (48 \<le> (of_char c :: nat) \<and> (of_char c :: nat) \<le> 57)"

definition decimal :: "string \<Rightarrow> nat" where
  "decimal s = foldl (\<lambda>n c. 10 * n + ((of_char c :: nat) - 48)) 0 s"

definition array_index :: "string \<Rightarrow> nat option" where
  "array_index s =
     (if s \<noteq> [] \<and> list_all is_digit s \<and> (s = ''0'' \<or> hd s \<noteq> CHR ''0'') \<and> decimal s \<le> 4294967294
      then Some (decimal s) else None)"

definition own_entries :: "(string \<times> jsval) list \<Rightarrow> (string \<times> jsval) list" where
  "own_entries kvs =
     sort_key (\<lambda>kv. decimal (fst kv)) (filter (\<lambda>kv. array_index (fst kv) \<noteq> None) kvs)
     @ filter (\<lambda>kv. array_index (fst kv) = None) kvs"

fun digits :: "nat \<Rightarrow> string" where
  "digits n = (if n < 10 then [char_of (48 + n)] else digits (n div 10) @ [char_of (48 + n mod 10)])"

text \<open>\<^verbatim>\<open>Object.entries(v)\<close>.\<close>

fun Object_entries :: "jsval \<Rightarrow> (string \<times> jsval) list result" where
  "Object_entries Undefined = Inl (TypeError ''Cannot convert undefined or null to object'')"
| "Object_entries Null = Inl (TypeError ''Cannot convert undefined or null to object'')"
| "Object_entries (Obj kvs) = Inr (own_entries kvs)"
| "Object_entries (Arr xs) = Inr (map (\<lambda>i. (digits i, xs ! i)) [0..<length xs])"
| "Object_entries (Str s) = Inr (map (\<lambda>i. (digits i, Str [s ! i])) [0..<length s])"
| "Object_entries v = Inr []"

section \<open>Arithmetic\<close>

text \<open>
  The sum of two finite numbers is exact here. The engine rounds the exact sum to the
  nearest double, which changes nothing when that sum is itself a double, as for integers
  below \<open>2^53\<close>. The sign of a difference is the sign of the exact difference in both.
\<close>

fun num_add :: "jsnum \<Rightarrow> jsnum \<Rightarrow> jsnum" where
  "num_add NaN y = NaN"
| "num_add x NaN = NaN"
| "num_add PosInf NegInf = NaN"
| "num_add NegInf PosInf = NaN"
| "num_add PosInf y = PosInf"
| "num_add x PosInf = PosInf"
| "num_add NegInf y = NegInf"
| "num_add x NegInf = NegInf"
| "num_add (Fin a) (Fin b) = Fin (a + b)"

fun num_neg :: "jsnum \<Rightarrow> jsnum" where
  "num_neg NaN = NaN"
| "num_neg PosInf = NegInf"
| "num_neg NegInf = PosInf"
| "num_neg (Fin a) = Fin (- a)"

definition num_sub :: "jsnum \<Rightarrow> jsnum \<Rightarrow> jsnum" where
  "num_sub x y = num_add x (num_neg y)"

fun negative :: "jsnum \<Rightarrow> bool" where
  "negative NegInf = True"
| "negative (Fin a) = (a < 0)"
| "negative x = False"

text \<open>
  The operator \<^verbatim>\<open>l + r\<close>: both operands become primitives; if one of them is a string the
  result is the concatenation of their strings, otherwise the sum of their numbers.
\<close>

fun ToPrimitive :: "platform \<Rightarrow> jsval \<Rightarrow> jsval result" where
  "ToPrimitive B (Arr xs) = and_then (ToString B (Arr xs)) (\<lambda>s. Inr (Str s))"
| "ToPrimitive B (Obj kvs) = and_then (ToString B (Obj kvs)) (\<lambda>s. Inr (Str s))"
| "ToPrimitive B v = Inr v"

fun is_Str :: "jsval \<Rightarrow> bool" where
  "is_Str (Str s) = True"
| "is_Str v = False"

definition js_add :: "platform \<Rightarrow> jsval \<Rightarrow> jsval \<Rightarrow> jsval result" where
  "js_add B l r =
     and_then (ToPrimitive B l) (\<lambda>lp.
     and_then (ToPrimitive B r) (\<lambda>rp.
       if is_Str lp \<or> is_Str rp
       then and_then (ToString B lp) (\<lambda>ls. and_then (ToString B rp) (\<lambda>rs. Inr (Str (ls @ rs))))
       else and_then (ToNumber B lp) (\<lambda>ln. and_then (ToNumber B rp) (\<lambda>rn. Inr (Num (num_add ln rn))))))"

text \<open>
  \<^verbatim>\<open>Array.prototype.sort\<close> with a comparison function is stable; \<open>earlier y x\<close> says that
  the comparison of \<open>y\<close> with \<open>x\<close> is negative, so that \<open>y\<close> has to come first. Where
  the comparison function is no consistent order (a difference that is \<^verbatim>\<open>NaN\<close>), the
  engine's order is not determined by the language, and this is one of the orders allowed.
\<close>

fun insert_by :: "('a \<Rightarrow> 'a \<Rightarrow> bool) \<Rightarrow> 'a \<Rightarrow> 'a list \<Rightarrow> 'a list" where
  "insert_by earlier x [] = [x]"
| "insert_by earlier x (y # ys) = (if earlier y x then y # insert_by earlier x ys else x # y # ys)"

definition sort_by :: "('a \<Rightarrow> 'a \<Rightarrow> bool) \<Rightarrow> 'a list \<Rightarrow> 'a list" where
  "sort_by earlier xs = foldr (insert_by earlier) xs []"

section \<open>Local Summarizer\<close>

text \<open>\<^verbatim>\<open>r.amount || 0\<close>, on a record whose amount is a number.\<close>

definition amount_or_zero :: "sales_record \<Rightarrow> jsnum" where
  "amount_or_zero r = (if truthy (Num (amount r)) then amount r else Fin 0)"

text \<open>
  One step of the \<^verbatim>\<open>reduce\<close> in \<^verbatim>\<open>groupBy\<close>, lines 94-96. The key \<open>k\<close> becomes a
  property key, the read \<^verbatim>\<open>acc[k]\<close> may find an inherited property, and the sum is
  assigned to \<^verbatim>\<open>acc[k]\<close>.
\<close>

definition group_step ::
  "platform \<Rightarrow> (sales_record \<Rightarrow> jsval) \<Rightarrow> (string \<times> jsval) list \<Rightarrow> sales_record
     \<Rightarrow> (string \<times> jsval) list result" where
  "group_step B key acc r =
     and_then (ToString B (js_or (key r) (Str ''Unspecified''))) (\<lambda>k.
     and_then
       (case get_property acc k of
          Own v \<Rightarrow> js_add B (js_or v (Num (Fin 0))) (Num (amount_or_zero r))
        | Inherited i \<Rightarrow> Inr (Str (inherited_text i @ NumberToString B (amount_or_zero r)))
        | Absent \<Rightarrow> js_add B (Num (Fin 0)) (Num (amount_or_zero r)))
       (\<lambda>v. Inr (set_property acc k v)))"

fun groupBy ::
  "platform \<Rightarrow> (sales_record \<Rightarrow> jsval) \<Rightarrow> (string \<times> jsval) list \<Rightarrow> sales_record list
     \<Rightarrow> (string \<times> jsval) list result" where
  "groupBy B key acc [] = Inr acc"
| "groupBy B key acc (r # rs) =
     (case group_step B key acc r of Inl e \<Rightarrow> Inl e | Inr acc' \<Rightarrow> groupBy B key acc' rs)"

text \<open>
  \<^verbatim>\<open>value.toLocaleString()\<close>. The values of a grouping are numbers, or strings where a key
  met an inherited property; a string is its own locale string.
\<close>

fun value_toLocaleString :: "platform \<Rightarrow> jsval \<Rightarrow> string result" where
  "value_toLocaleString B (Num n) = Inr (toLocaleString B n)"
| "value_toLocaleString B (Str s) = Inr s"
| "value_toLocaleString B (Bool b) = ToString B (Bool b)"
| "value_toLocaleString B Undefined = Inl (TypeError (cannot_read ''undefined'' ''toLocaleString''))"
| "value_toLocaleString B Null = Inl (TypeError (cannot_read ''null'' ''toLocaleString''))"
| "value_toLocaleString B (Arr xs) =
     and_then (sequence (map (\<lambda>x. if x = Undefined \<or> x = Null then Inr [] else value_toLocaleString B x) xs))
       (\<lambda>ss. Inr (intersperse '','' ss))"
| "value_toLocaleString B (Obj kvs) =
     (if ''toLocaleString'' \<in> set (map fst kvs)
      then Inl (TypeError ''value.toLocaleString is not a function'')
      else if ''toString'' \<in> set (map fst kvs)
      then Inl (TypeError ''this.toString is not a function'')
      else Inr ''[object Object]'')"

text \<open>The function \<^verbatim>\<open>top\<close> of lines 104-109.\<close>

definition top :: "platform \<Rightarrow> (string \<times> jsval) list \<Rightarrow> string result" where
  "top B obj =
     and_then (sequence (map (\<lambda>(name, v). and_then (ToNumber B v) (\<lambda>n. Inr (name, v, n)))
                 (own_entries obj))) (\<lambda>es.
     and_then (sequence (map (\<lambda>(name, v, n).
                   and_then (value_toLocaleString B v) (\<lambda>s. Inr (name @ '': $'' @ s)))
                 (take 3 (sort_by (\<lambda>a b. negative (num_sub (snd (snd b)) (snd (snd a)))) es)))) (\<lambda>parts.
     Inr (intersperse ''; '' parts)))"

text \<open>
  Lines 111-114 and 135-138: the entries of \<^verbatim>\<open>filters || {}\<close> with a truthy value,
  each rendered as \<^verbatim>\<open>key: value\<close>, joined by the separator.
\<close>

definition filterSummary :: "platform \<Rightarrow> string \<Rightarrow> jsval \<Rightarrow> string result" where
  "filterSummary B sep flt =
     and_then (Object_entries (js_or flt (Obj []))) (\<lambda>es.
     and_then (sequence (map (\<lambda>(k, v). and_then (ToString B v) (\<lambda>s. Inr (k @ '': '' @ s)))
                 (filter (\<lambda>(k, v). truthy v) es))) (\<lambda>parts.
     Inr (intersperse sep parts)))"

definition top_sentence :: "platform \<Rightarrow> string \<Rightarrow> (string \<times> jsval) list \<Rightarrow> string result" where
  "top_sentence B label obj =
     (if obj \<noteq> [] then and_then (top B obj) (\<lambda>t. Inr (label @ t @ ''.'')) else Inr [])"

definition summarizeLocally :: "platform \<Rightarrow> sales_record list \<Rightarrow> jsval \<Rightarrow> string result" where
  "summarizeLocally B recs flt =
     (if recs = [] then Inr ''No structured sales records were provided to summarize.''
      else
        let total = foldl (\<lambda>acc r. num_add acc (amount_or_zero r)) (Fin 0) recs in
        and_then (groupBy B customer [] recs) (\<lambda>byCustomer.
        and_then (groupBy B brand [] recs) (\<lambda>byBrand.
        and_then (groupBy B season [] recs) (\<lambda>bySeason.
        and_then (filterSummary B '', '' flt) (\<lambda>fs.
        and_then (top_sentence B ''Top customers: '' byCustomer) (\<lambda>s4.
        and_then (top_sentence B ''Top brands: '' byBrand) (\<lambda>s5.
        and_then (top_sentence B ''Top seasons/periods: '' bySeason) (\<lambda>s6.
        Inr (intersperse '' ''
          (filter (\<lambda>s. s \<noteq> [])
            [''AI provider is not configured. Showing a quick local summary instead.'',
             (if fs \<noteq> [] then ''Applied filters -> '' @ fs @ ''.'' else ''No filters applied.''),
             ''Total pipeline value: $'' @ toLocaleString B total @ ''.'',
             s4, s5, s6]))))))))))"

section \<open>Prompt Builder\<close>

definition focus :: "(string \<times> jsval) list" where
  "focus =
     [(''trends'', Str ''Identify demand trends, seasonality, and drivers across customers and brands.''),
      (''pipeline'', Str ''Predict pipeline milestones, risks, and likely close timelines with confidence levels.''),
      (''communications'', Str ''Draft succinct client-ready communication bullets and recommendations based on the data.'')]"

text \<open>\<^verbatim>\<open>focus[analysisType] || 'General sales insights.'\<close>, as the template renders it.\<close>

definition focus_text :: "platform \<Rightarrow> jsval \<Rightarrow> string result" where
  "focus_text B analysisType =
     and_then (ToString B analysisType) (\<lambda>key.
       case get_property focus key of
         Own v \<Rightarrow> ToString B (js_or v (Str ''General sales insights.''))
       | Inherited i \<Rightarrow> Inr (inherited_text i)
       | Absent \<Rightarrow> Inr ''General sales insights.'')"

definition newline :: string where
  "newline = [CHR 0x0A]"

definition buildPrompt :: "platform \<Rightarrow> jsval \<Rightarrow> jsval \<Rightarrow> jsval \<Rightarrow> string result" where
  "buildPrompt B rawSalesText analysisType flt =
     and_then (filterSummary B ''; '' flt) (\<lambda>fs.
     and_then (focus_text B analysisType) (\<lambda>fc.
     Inr (''You are a senior sales operations analyst. Use the sales data below to summarize insights.''
          @ newline @ newline
          @ ''Context filters: '' @ (if fs \<noteq> [] then fs else ''none provided'') @ newline
          @ ''Required focuses: '' @ fc @ newline @ newline
          @ ''Deliver three sections:'' @ newline
          @ ''1) Trend Highlights (bullets)'' @ newline
          @ ''2) Pipeline Outlook (probable milestones, risks, next best actions)'' @ newline
          @ ''3) Draft Communications (short, actionable notes for stakeholders)'' @ newline @ newline
          @ ''Use concise bullets and include numeric references when available. If data is sparse, state assumptions.'')))"

section \<open>Context Formatter\<close>

text \<open>
  A \<^verbatim>\<open>Set\<close> holds a value once, by \<^verbatim>\<open>SameValueZero\<close>: two primitives are the same when they
  are equal; an object is the same as itself only, and the objects in the rows of a
  record list are different objects, each row having been parsed on its own.
\<close>

fun primitive :: "jsval \<Rightarrow> bool" where
  "primitive (Arr xs) = False"
| "primitive (Obj kvs) = False"
| "primitive v = True"

definition same_value_zero :: "jsval \<Rightarrow> jsval \<Rightarrow> bool" where
  "same_value_zero a b = (primitive a \<and> a = b)"

definition set_add :: "jsval list \<Rightarrow> jsval \<Rightarrow> jsval list" where
  "set_add seen x = (if list_ex (\<lambda>y. same_value_zero y x) seen then seen else seen @ [x])"

text \<open>Line 192: \<^verbatim>\<open>Array.from(new Set(list.filter(Boolean)))\<close>.\<close>

definition unique :: "jsval list \<Rightarrow> jsval list" where
  "unique xs = foldl set_add [] (filter truthy xs)"

record contexts =
  customers :: "jsval list"
  brands :: "jsval list"
  seasons :: "jsval list"

definition formatContexts :: "jsval list \<Rightarrow> contexts result" where
  "formatContexts rows =
     and_then (sequence (map (\<lambda>r. field r ''customer'') rows)) (\<lambda>cs.
     and_then (sequence (map (\<lambda>r. field r ''brand'') rows)) (\<lambda>bs.
     and_then (sequence (map (\<lambda>r. field r ''season'') rows)) (\<lambda>ss.
     Inr \<lparr>customers = unique cs, brands = unique bs, seasons = unique ss\<rparr>)))"

text \<open>
  The words of the specification, for comparison: of the values of a column, an occurrence
  is kept where the value is non-empty and none of the values before it is the same.
\<close>

fun first_occurrences :: "jsval list \<Rightarrow> jsval list \<Rightarrow> jsval list" where
  "first_occurrences earlier [] = []"
| "first_occurrences earlier (x # xs) =
     (if truthy x \<and> \<not> list_ex (\<lambda>y. same_value_zero y x) earlier then [x] else [])
     @ first_occurrences (earlier @ [x]) xs"

definition sampleRecords :: "jsval list" where
  "sampleRecords =
     [Obj [(''customer'', Str ''Northwind Outfitters''), (''brand'', Str ''ActiveLife''),
           (''season'', Str ''Spring''), (''stage'', Str ''Proposal''),
           (''amount'', Num (Fin 185000)), (''notes'', Str ''Bundle with accessories'')],
      Obj [(''customer'', Str ''Summit Stores''), (''brand'', Str ''ActiveLife''),
           (''season'', Str ''Summer''), (''stage'', Str ''Negotiation''),
           (''amount'', Num (Fin 220000)), (''notes'', Str ''Close date likely this month'')],
      Obj [(''customer'', Str ''Harbor Co-op''), (''brand'', Str ''UrbanFlex''),
           (''season'', Str ''Holiday''), (''stage'', Str ''Committed''),
           (''amount'', Num (Fin 310000))],
      Obj [(''customer'', Str ''Northwind Outfitters''), (''brand'', Str ''UrbanFlex''),
           (''season'', Str ''Holiday''), (''stage'', Str ''Discovery''),
           (''amount'', Num (Fin 95000))],
      Obj [(''customer'', Str ''Metro Sports''), (''brand'', Str ''TrailWorks''),
           (''season'', Str ''Spring''), (''stage'', Str ''Proposal''),
           (''amount'', Num (Fin 140000))]]"

section \<open>Analysis Orchestrator\<close>

text \<open>
  The two clients are \<^verbatim>\<open>null\<close> (\<open>None\<close>) when their keys are not configured. A chat
  client maps the system and the user message to the content of the first choice of the
  completion (\<open>None\<close> where there is none), or to the error it throws. A datastore client
  says of a row whether the insert into \<^verbatim>\<open>analysis_logs\<close> stores it; where it does not,
  the client throws or resolves to an error, and \<^verbatim>\<open>logAnalysis\<close> goes on either way.
\<close>

record log_row =
  analysis_type :: jsval
  filters :: jsval
  result_preview :: string
  succeeded :: bool
  error_message :: "string option"

record clients =
  openaiClient :: "(string \<Rightarrow> string \<Rightarrow> string option result) option"
  supabaseServiceClient :: "(log_row \<Rightarrow> bool) option"

text \<open>
  What the handler changes outside the process: the rows of the table
  \<^verbatim>\<open>analysis_logs\<close>, and the chat completions it requested.
\<close>

record backend =
  analysis_logs :: "log_row list"
  completions :: "(string \<times> string) list"

definition logAnalysis ::
  "clients \<Rightarrow> jsval \<Rightarrow> jsval \<Rightarrow> string option \<Rightarrow> bool \<Rightarrow> string option \<Rightarrow> backend \<Rightarrow> backend" where
  "logAnalysis C analysisType flt resultPreview ok errorMessage W =
     (case supabaseServiceClient C of
        None \<Rightarrow> W
      | Some stores \<Rightarrow>
          let row = \<lparr>analysis_type = analysisType,
                     filters = flt,
                     result_preview = (case resultPreview of Some s \<Rightarrow> take 500 s | None \<Rightarrow> []),
                     succeeded = ok,
                     error_message = (case errorMessage of
                                        Some m \<Rightarrow> if m \<noteq> [] then Some m else None
                                      | None \<Rightarrow> None)\<rparr>
          in if stores row then W\<lparr>analysis_logs := analysis_logs W @ [row]\<rparr> else W)"

text \<open>\<^verbatim>\<open>String.prototype.trim\<close>, on code units below 256.\<close>

definition is_space :: "char \<Rightarrow> bool" where
  "is_space c = ((of_char c :: nat) \<in> set [9, 10, 11, 12, 13, 32, 160])"

definition js_trim :: "string \<Rightarrow> string" where
  "js_trim s = rev (dropWhile is_space (rev (dropWhile is_space s)))"

definition system_message :: string where
  "system_message = ''You are an expert AI sales analyst who is factual, concise, and action oriented.''"

definition runOpenAIAnalysis ::
  "platform \<Rightarrow> (string \<Rightarrow> string \<Rightarrow> string option result) \<Rightarrow> string \<Rightarrow> jsval \<Rightarrow> jsval \<Rightarrow> backend
     \<Rightarrow> string option result \<times> backend" where
  "runOpenAIAnalysis B chat rawSalesText analysisType flt W =
     (case buildPrompt B (Str rawSalesText) analysisType flt of
        Inl e \<Rightarrow> (Inl e, W)
      | Inr prompt \<Rightarrow>
          let user = prompt @ newline @ newline @ ''Sales data:'' @ newline @ rawSalesText
          in (case chat system_message user of
                Inl e \<Rightarrow> Inl e
              | Inr content \<Rightarrow> Inr (map_option js_trim content),
              W\<lparr>completions := completions W @ [(system_message, user)]\<rparr>))"

fun message :: "js_error \<Rightarrow> string" where
  "message (TypeError m) = m"
| "message (Rejected m) = m"

datatype response = Response nat jsval

text \<open>
  The handler of \<^verbatim>\<open>POST /api/analyze\<close>, on the parsed request body. \<open>Inl\<close> is an
  exception that leaves the handler: no response is sent.
\<close>

definition analyze :: "platform \<Rightarrow> clients \<Rightarrow> jsval \<Rightarrow> backend \<Rightarrow> (response \<times> backend) result" where
  "analyze B C body W =
     (let b = js_or body (Obj []) in
      and_then (field b ''salesData'') (\<lambda>salesData.
      and_then (field b ''analysisType'') (\<lambda>given_type.
      and_then (field b ''filters'') (\<lambda>given_filters.
      let analysisType = (if given_type = Undefined then Str ''trends'' else given_type);
          flt = (if given_filters = Undefined then Obj [] else given_filters)
      in
        if \<not> truthy salesData
        then Inr (Response 400 (Obj [(''error'', Str ''Missing salesData payload.'')]), W)
        else
          and_then (normalizeRecords B salesData) (\<lambda>n.
          let rawSalesText = (if raw n \<noteq> [] then raw n else JSON_stringify B salesData) in
          case openaiClient C of
            None \<Rightarrow>
              and_then (summarizeLocally B (records n) flt) (\<lambda>summary.
              Inr (Response 503
                     (Obj [(''error'', Str ''AI provider is not configured. Add OPENAI_API_KEY to enable insights.''),
                           (''data'', Str summary)]),
                   logAnalysis C analysisType flt (Some summary) True None W))
          | Some chat \<Rightarrow>
              (case runOpenAIAnalysis B chat rawSalesText analysisType flt W of
                 (Inr result, W') \<Rightarrow>
                   Inr (Response 200
                          (Obj [(''result'', case result of Some s \<Rightarrow> Str s | None \<Rightarrow> Undefined)]),
                        logAnalysis C analysisType flt result True None W')
               | (Inl err, W') \<Rightarrow>
                   Inr (Response 500 (Obj [(''error'', Str ''Failed to analyze data. Please try again later.'')]),
                        logAnalysis C analysisType flt (Some []) False
                          (Some (if message err \<noteq> [] then message err else ''Failed to analyze data''))
                          W')))))))"

section \<open>A host for the examples\<close>

text \<open>
  The examples below run on a host whose built-ins are given by tables: the results of the
  engine, under the locale \<^verbatim>\<open>en-US\<close>, on the arguments on which an example depends
  (the strings \<^verbatim>\<open>Infinity\<close> and \<^verbatim>\<open>42\<close> as numbers, and a string that is no number; the
  numbers 100, 300 and 400 in the locale). Elsewhere a table has a default, and no example
  depends on it: no example parses a text or converts a number to a string, and where an
  example passes a value to the serializer, the text it returns is left as it stands.
\<close>

definition answers :: "('a \<times> 'b) list \<Rightarrow> 'b \<Rightarrow> 'a \<Rightarrow> 'b" where
  "answers tab other x = (case map_of tab x of Some y \<Rightarrow> y | None \<Rightarrow> other)"

definition host :: platform where
  "host =
     \<lparr>JSON_parse = answers [] None,
      JSON_stringify = answers [] [],
      StringToNumber = answers [(''Infinity'', PosInf), (''42'', Fin 42)] NaN,
      NumberToString = answers [] [],
      toLocaleString = answers [(Fin 100, ''100''), (Fin 300, ''300''), (Fin 400, ''400'')] []\<rparr>"

section \<open>Results and sequences\<close>

lemma and_then_Inr_iff: "and_then r f = Inr y \<longleftrightarrow> (\<exists>v. r = Inr v \<and> f v = Inr y)"
  by (cases r) (simp_all add: and_then_def)

lemma sequence_Cons_Inr:
  "sequence (r # rs) = Inr vs \<longleftrightarrow> (\<exists>v ws. r = Inr v \<and> sequence rs = Inr ws \<and> vs = v # ws)"
  by (cases r; cases "sequence rs") auto

lemma sequence_Inr_iff: "sequence rs = Inr vs \<longleftrightarrow> rs = map Inr vs"
proof (induction rs arbitrary: vs)
  case Nil
  show ?case by (cases vs) simp_all
next
  case (Cons r rs)
  have "sequence (r # rs) = Inr vs \<longleftrightarrow> (\<exists>v ws. r = Inr v \<and> sequence rs = Inr ws \<and> vs = v # ws)"
    by (rule sequence_Cons_Inr)
  also have "\<dots> \<longleftrightarrow> (\<exists>v ws. r = Inr v \<and> rs = map Inr ws \<and> vs = v # ws)"
    by (simp only: Cons.IH)
  also have "\<dots> \<longleftrightarrow> r # rs = map Inr vs"
    by (cases vs) auto
  finally show ?case .
qed

section \<open>Properties of the Record Normalizer\<close>

subsection \<open>Reading an element\<close>

lemma field_returns: "item \<noteq> Undefined \<Longrightarrow> item \<noteq> Null \<Longrightarrow> \<exists>v. field item name = Inr v"
  by (cases item) simp_all

lemma first_truthy_returns:
  "item \<noteq> Undefined \<Longrightarrow> item \<noteq> Null \<Longrightarrow> \<exists>v. first_truthy item names dflt = Inr v"
proof (induction names)
  case Nil
  then show ?case by simp
next
  case (Cons name names)
  from Cons.prems obtain x where "field item name = Inr x"
    using field_returns by blast
  with Cons show ?case by simp
qed

lemma lacks_amount_defined: "lacks_amount item \<Longrightarrow> item \<noteq> Undefined \<and> item \<noteq> Null"
  by (cases item) (simp_all add: lacks_amount_def amount_fields_def)

lemma coerced_amount_lacking: "lacks_amount item \<Longrightarrow> coerced_amount B item = Inr (Fin 0)"
  by (auto simp: lacks_amount_def coerced_amount_def amount_fields_def and_then_def
      split: sum.splits)

lemma coerced_amount_value:
  assumes "field item ''amount'' = Inr a" "\<not> truthy a"
    and "field item ''value'' = Inr (Num v)" "truthy (Num v)"
  shows "coerced_amount B item = Inr v"
  using assms by (simp add: coerced_amount_def amount_fields_def and_then_def)

lemma normalizeItem_amount:
  "normalizeItem B item = Inr r \<Longrightarrow> coerced_amount B item = Inr (amount r)"
  unfolding normalizeItem_def and_then_Inr_iff by auto

lemma normalizeItem_returns:
  assumes "item \<noteq> Undefined" "item \<noteq> Null" "coerced_amount B item = Inr x"
  shows "\<exists>r. normalizeItem B item = Inr r \<and> amount r = x"
proof -
  obtain c where c: "first_truthy item [''customer'', ''account''] (Str ''Unknown Customer'') = Inr c"
    using first_truthy_returns [OF assms(1,2)] by blast
  obtain b where b: "first_truthy item [''brand'', ''category''] (Str ''Unknown Brand'') = Inr b"
    using first_truthy_returns [OF assms(1,2)] by blast
  obtain s where s: "first_truthy item [''season'', ''quarter'', ''period''] (Str ''Unspecified'') = Inr s"
    using first_truthy_returns [OF assms(1,2)] by blast
  obtain g where g: "first_truthy item [''stage'', ''pipelineStage''] (Str ''unspecified'') = Inr g"
    using first_truthy_returns [OF assms(1,2)] by blast
  obtain t where t: "first_truthy item [''notes'', ''comment''] (Str []) = Inr t"
    using first_truthy_returns [OF assms(1,2)] by blast
  show ?thesis
    unfolding normalizeItem_def c b s g t assms(3) and_then_def by simp
qed

subsection \<open>The record list\<close>

lemma toRecords_array:
  "toRecords B (Arr items) = Inr rs \<longleftrightarrow>
     (\<exists>every. map (normalizeItem B) items = map Inr every \<and> rs = filter (\<lambda>r. amount r \<noteq> NaN) every)"
  by (auto simp: toRecords_def and_then_Inr_iff sequence_Inr_iff)

lemma toRecords_not_NaN: "toRecords B parsed = Inr rs \<Longrightarrow> list_all (\<lambda>r. amount r \<noteq> NaN) rs"
  by (cases parsed) (auto simp: toRecords_def and_then_Inr_iff list_all_iff)

lemma normalizeRecords_records:
  "normalizeRecords B data = Inr n \<Longrightarrow>
     records n = [] \<or> (\<exists>parsed. toRecords B parsed = Inr (records n))"
  by (cases data) (auto simp: normalizeRecords_def and_then_Inr_iff split: if_splits option.splits)

lemma normalizeRecords_parsed:
  assumes "normalizeRecords B data = Inr n"
    and "data = Arr items \<or> (\<exists>s. data = Str s \<and> s \<noteq> [] \<and> JSON_parse B s = Some (Arr items))"
  shows "toRecords B (Arr items) = Inr (records n)"
  using assms by (auto simp: normalizeRecords_def and_then_Inr_iff)

lemma normalizeItem_map_filter:
  assumes "map (normalizeItem B) items = map Inr every"
  shows "map Inr (filter (\<lambda>r. amount r \<noteq> NaN) every)
       = map (normalizeItem B) (filter (\<lambda>item. coerced_amount B item \<noteq> Inr NaN) items)"
  using assms
proof (induction items arbitrary: every)
  case Nil
  then show ?case by simp
next
  case (Cons item items)
  then obtain r rest where e: "every = r # rest" "normalizeItem B item = Inr r"
      "map (normalizeItem B) items = map Inr rest"
    by (cases every) auto
  from e(2) have c: "coerced_amount B item = Inr (amount r)" by (rule normalizeItem_amount)
  have ih: "map Inr (filter (\<lambda>r. amount r \<noteq> NaN) rest)
       = map (normalizeItem B) (filter (\<lambda>item. coerced_amount B item \<noteq> Inr NaN) items)"
    by (rule Cons.IH [OF e(3)])
  show ?case unfolding e(1) by (simp add: c e(2) ih)
qed

lemma kept_in_records:
  assumes "toRecords B (Arr items) = Inr rs" "item \<in> set items"
    and "normalizeItem B item = Inr r" "amount r \<noteq> NaN"
  shows "r \<in> set rs"
proof -
  from assms(1) obtain every where e: "map (normalizeItem B) items = map Inr every"
      "rs = filter (\<lambda>r. amount r \<noteq> NaN) every"
    unfolding toRecords_array by blast
  from assms(2) have "normalizeItem B item \<in> set (map (normalizeItem B) items)" by simp
  with e(1) assms(3) have "r \<in> set every" by auto
  with e(2) assms(4) show ?thesis by simp
qed

text \<open>
  On an array \<^verbatim>\<open>normalizeRecords\<close> returns exactly when the amount of every element can
  be coerced: no element is \<^verbatim>\<open>null\<close>, and the conversion of no amount to a number
  throws.
\<close>

lemma coerced_amount_defined: "coerced_amount B item = Inr x \<Longrightarrow> item \<noteq> Undefined \<and> item \<noteq> Null"
  by (cases item) (simp_all add: coerced_amount_def amount_fields_def and_then_def)

lemma normalizeItems_return:
  "list_all (\<lambda>item. \<exists>x. coerced_amount B item = Inr x) items \<Longrightarrow>
   \<exists>every. map (normalizeItem B) items = map Inr every"
proof (induction items)
  case Nil
  then show ?case by simp
next
  case (Cons item items)
  then obtain every where e: "map (normalizeItem B) items = map Inr every" by auto
  from Cons.prems obtain x where x: "coerced_amount B item = Inr x" by auto
  then have "item \<noteq> Undefined" "item \<noteq> Null"
    using coerced_amount_defined by blast+
  with x obtain r where "normalizeItem B item = Inr r"
    using normalizeItem_returns by blast
  with e have "map (normalizeItem B) (item # items) = map Inr (r # every)" by simp
  then show ?case by blast
qed

lemma normalizeRecords_returns_iff:
  "(\<exists>n. normalizeRecords B (Arr items) = Inr n)
     \<longleftrightarrow> list_all (\<lambda>item. \<exists>x. coerced_amount B item = Inr x) items"
proof
  assume "\<exists>n. normalizeRecords B (Arr items) = Inr n"
  then obtain n where "normalizeRecords B (Arr items) = Inr n" ..
  then have "toRecords B (Arr items) = Inr (records n)"
    by (rule normalizeRecords_parsed) simp
  then obtain every where e: "map (normalizeItem B) items = map Inr every"
    unfolding toRecords_array by blast
  show "list_all (\<lambda>item. \<exists>x. coerced_amount B item = Inr x) items"
    unfolding list_all_iff
  proof
    fix item assume "item \<in> set items"
    then have "normalizeItem B item \<in> set (map (normalizeItem B) items)" by simp
    with e obtain r where "normalizeItem B item = Inr r" by auto
    then show "\<exists>x. coerced_amount B item = Inr x"
      using normalizeItem_amount by blast
  qed
next
  assume "list_all (\<lambda>item. \<exists>x. coerced_amount B item = Inr x) items"
  then obtain every where "map (normalizeItem B) items = map Inr every"
    using normalizeItems_return by blast
  then have "toRecords B (Arr items) = Inr (filter (\<lambda>r. amount r \<noteq> NaN) every)"
    unfolding toRecords_array by blast
  then show "\<exists>n. normalizeRecords B (Arr items) = Inr n"
    by (simp add: normalizeRecords_def and_then_def)
qed

text \<open>
  The inputs on which the record list is empty: a falsy input, a text that the parser
  rejects, a text that is no array, and a value that is neither text nor object.
\<close>

lemma normalizeRecords_falsy: "\<not> truthy data \<Longrightarrow> normalizeRecords B data = Inr \<lparr>raw = [], records = []\<rparr>"
  by (simp add: normalizeRecords_def)

lemma normalizeRecords_parse_failure:
  "s \<noteq> [] \<Longrightarrow> JSON_parse B s = None \<Longrightarrow> normalizeRecords B (Str s) = Inr \<lparr>raw = s, records = []\<rparr>"
  by (simp add: normalizeRecords_def toRecords_def and_then_def)

lemma normalizeRecords_no_array:
  "s \<noteq> [] \<Longrightarrow> JSON_parse B s = Some v \<Longrightarrow> \<forall>items. v \<noteq> Arr items \<Longrightarrow>
   normalizeRecords B (Str s) = Inr \<lparr>raw = s, records = []\<rparr>"
  by (cases v) (simp_all add: normalizeRecords_def toRecords_def and_then_def)

lemma normalizeRecords_other:
  "truthy (Num x) \<Longrightarrow> normalizeRecords B (Num x) = Inr \<lparr>raw = [], records = []\<rparr>"
  "normalizeRecords B (Bool True) = Inr \<lparr>raw = [], records = []\<rparr>"
  by (simp_all add: normalizeRecords_def toRecords_def and_then_def)

subsection \<open>Amounts of the record list\<close>

text \<open>
  C1, as the code has it. On a JSON array, given as an array or as its text, where
  \<^verbatim>\<open>normalizeRecords\<close> returns: no record of the output has the amount \<^verbatim>\<open>NaN\<close>; the output
  holds, in the order of the input, the records of exactly those elements whose coerced
  amount \<^verbatim>\<open>Number(amount || value || revenue || total || 0)\<close> is not \<^verbatim>\<open>NaN\<close>, so that
  an element is left out where its first truthy amount-bearing field is not numeric; and
  an element that lacks an amount is kept, with the amount 0.
\<close>

theorem normalizeRecords_array_amounts:
  assumes "normalizeRecords B data = Inr n"
    and "data = Arr items \<or> (\<exists>s. data = Str s \<and> s \<noteq> [] \<and> JSON_parse B s = Some (Arr items))"
  shows "list_all (\<lambda>r. amount r \<noteq> NaN) (records n)
       \<and> map Inr (records n)
           = map (normalizeItem B) (filter (\<lambda>item. coerced_amount B item \<noteq> Inr NaN) items)
       \<and> list_all (\<lambda>item. lacks_amount item \<longrightarrow>
            (\<exists>r. normalizeItem B item = Inr r \<and> amount r = Fin 0 \<and> r \<in> set (records n))) items"
proof -
  have t: "toRecords B (Arr items) = Inr (records n)"
    using assms by (rule normalizeRecords_parsed)
  then obtain every where e: "map (normalizeItem B) items = map Inr every"
      "records n = filter (\<lambda>r. amount r \<noteq> NaN) every"
    unfolding toRecords_array by blast
  have 1: "list_all (\<lambda>r. amount r \<noteq> NaN) (records n)"
    using t by (rule toRecords_not_NaN)
  have 2: "map Inr (records n)
      = map (normalizeItem B) (filter (\<lambda>item. coerced_amount B item \<noteq> Inr NaN) items)"
    unfolding e(2) using e(1) by (rule normalizeItem_map_filter)
  have 3: "\<exists>r. normalizeItem B item = Inr r \<and> amount r = Fin 0 \<and> r \<in> set (records n)"
    if "item \<in> set items" "lacks_amount item" for item
  proof -
    from that(2) have "coerced_amount B item = Inr (Fin 0)" by (rule coerced_amount_lacking)
    moreover from that(2) have "item \<noteq> Undefined" "item \<noteq> Null"
      using lacks_amount_defined by blast+
    ultimately obtain r where r: "normalizeItem B item = Inr r" "amount r = Fin 0"
      using normalizeItem_returns by blast
    from t that(1) r(1) have "r \<in> set (records n)"
      by (rule kept_in_records) (simp add: r(2))
    with r show ?thesis by blast
  qed
  from 1 2 3 show ?thesis by (simp add: list_all_iff)
qed

text \<open>
  An instance: of three elements, the first has no amount-bearing field and is kept with
  the amount 0, the second has an amount that is no number and is left out, the third takes
  its amount from \<^verbatim>\<open>total\<close>.
\<close>

theorem normalizeRecords_array_amounts_witness:
  "normalizeRecords host
     (Arr [Obj [(''customer'', Str ''X'')],
           Obj [(''customer'', Str ''Y''), (''amount'', Str ''abc'')],
           Obj [(''customer'', Str ''Z''), (''total'', Str ''42'')]])
   = Inr \<lparr>raw = JSON_stringify host
                 (Arr [Obj [(''customer'', Str ''X'')],
                       Obj [(''customer'', Str ''Y''), (''amount'', Str ''abc'')],
                       Obj [(''customer'', Str ''Z''), (''total'', Str ''42'')]]),
          records =
            [\<lparr>customer = Str ''X'', brand = Str ''Unknown Brand'', season = Str ''Unspecified'',
               stage = Str ''unspecified'', amount = Fin 0, notes' = Str []\<rparr>,
             \<lparr>customer = Str ''Z'', brand = Str ''Unknown Brand'', season = Str ''Unspecified'',
               stage = Str ''unspecified'', amount = Fin 42, notes' = Str []\<rparr>]\<rparr>
   \<and> map (normalizeItem host)
       (filter (\<lambda>item. coerced_amount host item \<noteq> Inr NaN)
          [Obj [(''customer'', Str ''X'')],
           Obj [(''customer'', Str ''Y''), (''amount'', Str ''abc'')],
           Obj [(''customer'', Str ''Z''), (''total'', Str ''42'')]])
     = [Inr \<lparr>customer = Str ''X'', brand = Str ''Unknown Brand'', season = Str ''Unspecified'',
               stage = Str ''unspecified'', amount = Fin 0, notes' = Str []\<rparr>,
        Inr \<lparr>customer = Str ''Z'', brand = Str ''Unknown Brand'', season = Str ''Unspecified'',
               stage = Str ''unspecified'', amount = Fin 42, notes' = Str []\<rparr>]"
proof -
  let ?items = "[Obj [(''customer'', Str ''X'')],
           Obj [(''customer'', Str ''Y''), (''amount'', Str ''abc'')],
           Obj [(''customer'', Str ''Z''), (''total'', Str ''42'')]]"
  let ?n = "\<lparr>raw = JSON_stringify host (Arr ?items),
          records =
            [\<lparr>customer = Str ''X'', brand = Str ''Unknown Brand'', season = Str ''Unspecified'',
               stage = Str ''unspecified'', amount = Fin 0, notes' = Str []\<rparr>,
             \<lparr>customer = Str ''Z'', brand = Str ''Unknown Brand'', season = Str ''Unspecified'',
               stage = Str ''unspecified'', amount = Fin 42, notes' = Str []\<rparr>]\<rparr>"
  have number: "StringToNumber host = answers [(''Infinity'', PosInf), (''42'', Fin 42)] NaN"
    by (simp add: host_def)
  have h: "normalizeRecords host (Arr ?items) = Inr ?n"
    by (simp add: normalizeRecords_def toRecords_def normalizeItem_def coerced_amount_def
        amount_fields_def and_then_def number answers_def)
  have "Arr ?items = Arr ?items \<or> (\<exists>s. Arr ?items = Str s \<and> s \<noteq> [] \<and> JSON_parse host s = Some (Arr ?items))"
    by simp
  with h have "map Inr (records ?n)
      = map (normalizeItem host) (filter (\<lambda>item. coerced_amount host item \<noteq> Inr NaN) ?items)"
    using normalizeRecords_array_amounts [of host "Arr ?items" ?n ?items] by blast
  with h show ?thesis by simp
qed

text \<open>
  C1 as the specification states it fails: an element with none of the four fields is in
  the output, with the amount 0 that \<^verbatim>\<open>|| 0\<close> gives it.
\<close>

theorem absent_amount_kept_as_zero:
  "map_sum id records (normalizeRecords host (Arr [Obj [(''customer'', Str ''X'')]]))
   = Inr [\<lparr>customer = Str ''X'', brand = Str ''Unknown Brand'', season = Str ''Unspecified'',
            stage = Str ''unspecified'', amount = Fin 0, notes' = Str []\<rparr>]"
  by (simp add: normalizeRecords_def toRecords_def normalizeItem_def coerced_amount_def
      amount_fields_def and_then_def)

subsection \<open>Exceptions\<close>

text \<open>
  C2. The claim is that \<^verbatim>\<open>normalizeRecords\<close> never throws, also on an array that holds
  \<^verbatim>\<open>null\<close>. On the array \<^verbatim>\<open>[null]\<close> the arrow function reads \<^verbatim>\<open>item.customer\<close> of
  \<^verbatim>\<open>null\<close>, outside the only \<^verbatim>\<open>try\<close> block of the function: the call ends in a
  \<^verbatim>\<open>TypeError\<close> and returns no result.
\<close>

theorem normalizeRecords_null_element_throws:
  "normalizeRecords B (Arr [Null]) = Inl (TypeError (cannot_read ''null'' ''customer''))"
  by (simp add: normalizeRecords_def toRecords_def normalizeItem_def and_then_def)

text \<open>
  The conversion of line 76 throws as well, on an amount that is an object with a property
  \<^verbatim>\<open>toString\<close> of its own, as in \<^verbatim>\<open>[{"amount": {"toString": 1}}]\<close>.
\<close>

lemma normalizeRecords_amount_object_throws:
  "normalizeRecords B (Arr [Obj [(''amount'', Obj [(''toString'', Num (Fin 1))])]])
     = Inl (TypeError no_primitive)"
  by (simp add: normalizeRecords_def toRecords_def normalizeItem_def coerced_amount_def
      amount_fields_def and_then_def)

subsection \<open>The invariant of the record list\<close>

text \<open>
  C3, as the code has it. Whatever the input, where \<^verbatim>\<open>normalizeRecords\<close> returns, no
  record of the list has the amount \<^verbatim>\<open>NaN\<close>. The amount may be infinite.
\<close>

theorem normalizeRecords_no_NaN:
  assumes "normalizeRecords B data = Inr n"
  shows "list_all (\<lambda>r. amount r \<noteq> NaN) (records n)"
proof -
  from assms consider "records n = []" | parsed where "toRecords B parsed = Inr (records n)"
    using normalizeRecords_records by blast
  then show ?thesis
  proof cases
    case 1
    then show ?thesis by simp
  next
    case 2
    then show ?thesis by (rule toRecords_not_NaN)
  qed
qed

text \<open>An instance: a single object is wrapped into a list, and its amount is kept.\<close>

theorem normalizeRecords_no_NaN_witness:
  "normalizeRecords host (Obj [(''account'', Str ''A''), (''value'', Num (Fin 5))])
   = Inr \<lparr>raw = JSON_stringify host (Obj [(''account'', Str ''A''), (''value'', Num (Fin 5))]),
          records =
            [\<lparr>customer = Str ''A'', brand = Str ''Unknown Brand'', season = Str ''Unspecified'',
               stage = Str ''unspecified'', amount = Fin 5, notes' = Str []\<rparr>]\<rparr>
   \<and> list_all (\<lambda>r. amount r \<noteq> NaN)
       [\<lparr>customer = Str ''A'', brand = Str ''Unknown Brand'', season = Str ''Unspecified'',
          stage = Str ''unspecified'', amount = Fin 5, notes' = Str []\<rparr>]"
proof -
  have h: "normalizeRecords host (Obj [(''account'', Str ''A''), (''value'', Num (Fin 5))])
      = Inr \<lparr>raw = JSON_stringify host (Obj [(''account'', Str ''A''), (''value'', Num (Fin 5))]),
             records =
               [\<lparr>customer = Str ''A'', brand = Str ''Unknown Brand'', season = Str ''Unspecified'',
                  stage = Str ''unspecified'', amount = Fin 5, notes' = Str []\<rparr>]\<rparr>"
    by (simp add: normalizeRecords_def toRecords_def normalizeItem_def coerced_amount_def
        amount_fields_def and_then_def)
  from normalizeRecords_no_NaN [OF h] h show ?thesis by simp
qed

text \<open>
  C3 as the specification states it fails: the filter of line 79 tests for \<^verbatim>\<open>NaN\<close> only.
  The number that the JSON text \<^verbatim>\<open>1e999\<close> denotes is \<^verbatim>\<open>Infinity\<close>, and so is the number
  of the string \<^verbatim>\<open>"Infinity"\<close>; both records stay in the list, with an infinite amount.
\<close>

theorem infinite_amount_kept:
  "map_sum id (map amount \<circ> records)
     (normalizeRecords host
        (Arr [Obj [(''amount'', Num PosInf)], Obj [(''amount'', Str ''Infinity'')]]))
   = Inr [PosInf, PosInf]"
  by (simp add: normalizeRecords_def toRecords_def normalizeItem_def coerced_amount_def
      amount_fields_def and_then_def host_def answers_def)

subsection \<open>Aliases of the amount\<close>

text \<open>
  C10. The amount is the first truthy one of the four fields, not the first present one. An
  element whose \<^verbatim>\<open>amount\<close> is falsy (or absent) and whose \<^verbatim>\<open>value\<close> is a number \<open>v\<close>
  other than 0 (and other than \<^verbatim>\<open>NaN\<close>, which no JSON text denotes) gets the amount
  \<open>v\<close>, and its record is in the output of every array that holds the element; an element
  that lacks an amount gets the amount 0.
\<close>

theorem amount_alias_by_truthiness:
  "(field item ''amount'' = Inr a \<and> \<not> truthy a \<and> field item ''value'' = Inr (Num v) \<and> truthy (Num v)
      \<longrightarrow> (\<exists>r. normalizeItem B item = Inr r \<and> amount r = v
               \<and> (\<forall>items n. item \<in> set items \<and> normalizeRecords B (Arr items) = Inr n
                     \<longrightarrow> r \<in> set (records n))))
   \<and> (lacks_amount item \<longrightarrow> (\<exists>r. normalizeItem B item = Inr r \<and> amount r = Fin 0))"
proof (intro conjI impI)
  assume a: "field item ''amount'' = Inr a \<and> \<not> truthy a \<and> field item ''value'' = Inr (Num v) \<and> truthy (Num v)"
  then have c: "coerced_amount B item = Inr v"
    using coerced_amount_value by blast
  from a have "item \<noteq> Undefined" "item \<noteq> Null"
    by (cases item; simp)+
  with c obtain r where r: "normalizeItem B item = Inr r" "amount r = v"
    using normalizeItem_returns by blast
  from a have v: "v \<noteq> NaN" by simp
  have "r \<in> set (records n)"
    if "item \<in> set items" "normalizeRecords B (Arr items) = Inr n" for items n
  proof -
    from that(2) have "toRecords B (Arr items) = Inr (records n)"
      by (rule normalizeRecords_parsed) simp
    from this that(1) r(1) show ?thesis
      by (rule kept_in_records) (simp add: r(2) v)
  qed
  with r show "\<exists>r. normalizeItem B item = Inr r \<and> amount r = v
      \<and> (\<forall>items n. item \<in> set items \<and> normalizeRecords B (Arr items) = Inr n \<longrightarrow> r \<in> set (records n))"
    by blast
next
  assume l: "lacks_amount item"
  then have "coerced_amount B item = Inr (Fin 0)" by (rule coerced_amount_lacking)
  moreover from l have "item \<noteq> Undefined" "item \<noteq> Null"
    using lacks_amount_defined by blast+
  ultimately show "\<exists>r. normalizeItem B item = Inr r \<and> amount r = Fin 0"
    using normalizeItem_returns by blast
qed

text \<open>An instance: \<^verbatim>\<open>{amount: 0, value: 5}\<close> has the amount 5, and \<^verbatim>\<open>{}\<close> the amount 0.\<close>

theorem amount_alias_by_truthiness_witness:
  "field (Obj [(''amount'', Num (Fin 0)), (''value'', Num (Fin 5))]) ''amount'' = Inr (Num (Fin 0))
   \<and> \<not> truthy (Num (Fin 0))
   \<and> field (Obj [(''amount'', Num (Fin 0)), (''value'', Num (Fin 5))]) ''value'' = Inr (Num (Fin 5))
   \<and> truthy (Num (Fin 5))
   \<and> (\<exists>r. normalizeItem host (Obj [(''amount'', Num (Fin 0)), (''value'', Num (Fin 5))]) = Inr r
          \<and> amount r = Fin 5)
   \<and> lacks_amount (Obj [])
   \<and> (\<exists>r. normalizeItem host (Obj []) = Inr r \<and> amount r = Fin 0)"
proof -
  let ?item = "Obj [(''amount'', Num (Fin 0)), (''value'', Num (Fin 5))]"
  have 1: "field ?item ''amount'' = Inr (Num (Fin 0)) \<and> \<not> truthy (Num (Fin 0))
      \<and> field ?item ''value'' = Inr (Num (Fin 5)) \<and> truthy (Num (Fin 5))"
    by simp
  have 2: "lacks_amount (Obj [])"
    by (simp add: lacks_amount_def amount_fields_def)
  from 1 have "\<exists>r. normalizeItem host ?item = Inr r \<and> amount r = Fin 5"
    using amount_alias_by_truthiness [of ?item "Num (Fin 0)" "Fin 5" host] by blast
  moreover from 2 have "\<exists>r. normalizeItem host (Obj []) = Inr r \<and> amount r = Fin 0"
    using amount_alias_by_truthiness [of "Obj []" Null NaN host] by blast
  ultimately show ?thesis using 1 2 by simp
qed

section \<open>Properties of the Local Summarizer\<close>

text \<open>
  C5. On the empty record list \<^verbatim>\<open>summarizeLocally\<close> returns the fixed sentence, whatever
  the filters are: line 86 returns before the filters are read.
\<close>

theorem summarizeLocally_no_records:
  "summarizeLocally B [] flt = Inr ''No structured sales records were provided to summarize.''"
  by (simp add: summarizeLocally_def)

text \<open>
  C4. The records \<^verbatim>\<open>[{customer:"X", amount:100},{customer:"Y", amount:300}]\<close> have no
  brand and no season, which read as \<^verbatim>\<open>undefined\<close>. With the filters \<^verbatim>\<open>{}\<close>, and with
  no filters at all, on a host whose locale writes the numbers 100, 300 and 400 with these
  digits, the summary states the total \<^verbatim>\<open>$400\<close> and the top customers
  \<^verbatim>\<open>Y: $300; X: $100\<close>, ranked by their sums.
\<close>

theorem summarizeLocally_example:
  assumes "toLocaleString B (Fin 100) = ''100''"
    and "toLocaleString B (Fin 300) = ''300''"
    and "toLocaleString B (Fin 400) = ''400''"
  shows "summarizeLocally B
     [\<lparr>customer = Str ''X'', brand = Undefined, season = Undefined, stage = Undefined,
        amount = Fin 100, notes' = Undefined\<rparr>,
      \<lparr>customer = Str ''Y'', brand = Undefined, season = Undefined, stage = Undefined,
        amount = Fin 300, notes' = Undefined\<rparr>]
     (Obj []) =
   Inr ''AI provider is not configured. Showing a quick local summary instead. No filters applied. Total pipeline value: $400. Top customers: Y: $300; X: $100. Top brands: Unspecified: $400. Top seasons/periods: Unspecified: $400.''
   \<and> summarizeLocally B
     [\<lparr>customer = Str ''X'', brand = Undefined, season = Undefined, stage = Undefined,
        amount = Fin 100, notes' = Undefined\<rparr>,
      \<lparr>customer = Str ''Y'', brand = Undefined, season = Undefined, stage = Undefined,
        amount = Fin 300, notes' = Undefined\<rparr>]
     Undefined =
   Inr ''AI provider is not configured. Showing a quick local summary instead. No filters applied. Total pipeline value: $400. Top customers: Y: $300; X: $100. Top brands: Unspecified: $400. Top seasons/periods: Unspecified: $400.''"
  using assms
  by (simp add: summarizeLocally_def group_step_def js_or_def and_then_def get_property_def
      Object_prototype_def js_add_def amount_or_zero_def set_property_def top_sentence_def
      top_def own_entries_def array_index_def is_digit_def filterSummary_def sort_by_def
      num_sub_def)

text \<open>An instance: the host of the examples writes the three numbers so.\<close>

theorem summarizeLocally_example_witness:
  "toLocaleString host (Fin 100) = ''100''
   \<and> toLocaleString host (Fin 300) = ''300''
   \<and> toLocaleString host (Fin 400) = ''400''
   \<and> summarizeLocally host
     [\<lparr>customer = Str ''X'', brand = Undefined, season = Undefined, stage = Undefined,
        amount = Fin 100, notes' = Undefined\<rparr>,
      \<lparr>customer = Str ''Y'', brand = Undefined, season = Undefined, stage = Undefined,
        amount = Fin 300, notes' = Undefined\<rparr>]
     (Obj []) =
   Inr ''AI provider is not configured. Showing a quick local summary instead. No filters applied. Total pipeline value: $400. Top customers: Y: $300; X: $100. Top brands: Unspecified: $400. Top seasons/periods: Unspecified: $400.''"
proof -
  have l: "toLocaleString host (Fin 100) = ''100''" "toLocaleString host (Fin 300) = ''300''"
    "toLocaleString host (Fin 400) = ''400''"
    by (simp_all add: host_def answers_def)
  from summarizeLocally_example [OF l] l show ?thesis by simp
qed

text \<open>The summary is never the empty string.\<close>

lemma intersperse_nonempty: "x \<noteq> [] \<Longrightarrow> intersperse sep (x # xs) \<noteq> []"
  by (cases xs) simp_all

lemma summarizeLocally_nonempty: "summarizeLocally B recs flt = Inr summary \<Longrightarrow> summary \<noteq> []"
  by (auto simp: summarizeLocally_def Let_def and_then_Inr_iff intersperse_nonempty
      split: if_splits)

section \<open>Properties of the Prompt Builder\<close>

text \<open>
  Where the claim C8 holds: the type \<^verbatim>\<open>pipeline\<close> selects its focus sentence, and a type
  whose property key is neither a key of \<^verbatim>\<open>focus\<close> nor a property of
  \<^verbatim>\<open>Object.prototype\<close> selects the generic sentence.
\<close>

lemma focus_text_pipeline:
  "focus_text B (Str ''pipeline'')
     = Inr ''Predict pipeline milestones, risks, and likely close timelines with confidence levels.''"
  by (simp add: focus_text_def and_then_def get_property_def focus_def js_or_def)

lemma focus_text_fallback:
  assumes "ToString B t = Inr key" and "key \<notin> set (map fst focus)" and "Object_prototype key = None"
  shows "focus_text B t = Inr ''General sales insights.''"
proof -
  from assms(2) have "map_of focus key = None"
    by (simp add: map_of_eq_None_iff)
  with assms(1,3) show ?thesis
    by (simp add: focus_text_def and_then_def get_property_def)
qed

text \<open>
  C8. The claim is that every unrecognized analysis type gives the generic sentence. The
  read \<^verbatim>\<open>focus[analysisType]\<close> also finds what the object literal inherits: for the type
  \<^verbatim>\<open>constructor\<close> it is the function \<^verbatim>\<open>Object\<close>, which is truthy, so that \<^verbatim>\<open>||\<close> does
  not fall back, and the prompt shows the source text of that function in the place of the
  sentence \<^verbatim>\<open>General sales insights.\<close>
\<close>

theorem buildPrompt_inherited_focus:
  "focus_text B (Str ''constructor'') = Inr ''function Object() { [native code] }''
   \<and> buildPrompt B rawSalesText (Str ''constructor'') (Obj [])
     = Inr (''You are a senior sales operations analyst. Use the sales data below to summarize insights.''
          @ newline @ newline
          @ ''Context filters: none provided'' @ newline
          @ ''Required focuses: function Object() { [native code] }'' @ newline @ newline
          @ ''Deliver three sections:'' @ newline
          @ ''1) Trend Highlights (bullets)'' @ newline
          @ ''2) Pipeline Outlook (probable milestones, risks, next best actions)'' @ newline
          @ ''3) Draft Communications (short, actionable notes for stakeholders)'' @ newline @ newline
          @ ''Use concise bullets and include numeric references when available. If data is sparse, state assumptions.'')"
proof -
  have f: "focus_text B (Str ''constructor'') = Inr ''function Object() { [native code] }''"
    by (simp add: focus_text_def and_then_def get_property_def focus_def Object_prototype_def)
  have s: "filterSummary B ''; '' (Obj []) = Inr []"
    by (simp add: filterSummary_def js_or_def own_entries_def and_then_def)
  show ?thesis
    by (simp add: f buildPrompt_def s and_then_def)
qed

section \<open>Properties of the Context Formatter\<close>

lemma same_in_list: "list_ex (\<lambda>y. same_value_zero y x) ys \<longleftrightarrow> primitive x \<and> x \<in> set ys"
  by (auto simp: list_ex_iff same_value_zero_def)

text \<open>
  The set that line 192 builds from the truthy values holds a value exactly when the
  specification's rule keeps it: the accumulated list and the values read so far hold the
  same truthy primitives.
\<close>

lemma foldl_set_add_first_occurrences:
  assumes "\<And>x. truthy x \<Longrightarrow> primitive x \<Longrightarrow> x \<in> set acc \<longleftrightarrow> x \<in> set earlier"
  shows "foldl set_add acc (filter truthy xs) = acc @ first_occurrences earlier xs"
  using assms
proof (induction xs arbitrary: acc earlier)
  case Nil
  then show ?case by simp
next
  case (Cons x xs)
  show ?case
  proof (cases "truthy x")
    case False
    have "foldl set_add acc (filter truthy xs) = acc @ first_occurrences (earlier @ [x]) xs"
    proof (rule Cons.IH)
      fix z assume "truthy z" "primitive z"
      with False Cons.prems show "z \<in> set acc \<longleftrightarrow> z \<in> set (earlier @ [x])" by auto
    qed
    with False show ?thesis by simp
  next
    case True
    show ?thesis
    proof (cases "primitive x \<and> x \<in> set acc")
      case seen: True
      have "foldl set_add acc (filter truthy xs) = acc @ first_occurrences (earlier @ [x]) xs"
      proof (rule Cons.IH)
        fix z assume "truthy z" "primitive z"
        with seen Cons.prems show "z \<in> set acc \<longleftrightarrow> z \<in> set (earlier @ [x])" by auto
      qed
      moreover from seen True Cons.prems have "primitive x \<and> x \<in> set earlier" by blast
      moreover from seen have "set_add acc x = acc" by (simp add: set_add_def same_in_list)
      ultimately show ?thesis using True by (simp add: same_in_list)
    next
      case new: False
      have "foldl set_add (acc @ [x]) (filter truthy xs)
          = (acc @ [x]) @ first_occurrences (earlier @ [x]) xs"
      proof (rule Cons.IH)
        fix z assume "truthy z" "primitive z"
        with Cons.prems show "z \<in> set (acc @ [x]) \<longleftrightarrow> z \<in> set (earlier @ [x])" by auto
      qed
      moreover from new True Cons.prems have "\<not> (primitive x \<and> x \<in> set earlier)" by blast
      moreover from new have "set_add acc x = acc @ [x]" by (simp add: set_add_def same_in_list)
      ultimately show ?thesis using True by (simp add: same_in_list)
    qed
  qed
qed

lemma unique_first_occurrences: "unique xs = first_occurrences [] xs"
  unfolding unique_def using foldl_set_add_first_occurrences [of "[]" "[]" xs] by simp

lemma count_first_occurrences:
  "primitive v \<Longrightarrow>
   count_list (first_occurrences earlier xs) v
     = (if truthy v \<and> v \<in> set xs \<and> v \<notin> set earlier then 1 else 0)"
proof (induction xs arbitrary: earlier)
  case Nil
  then show ?case by simp
next
  case (Cons x xs)
  then show ?case by (auto simp: same_in_list)
qed

lemma count_unique:
  "primitive v \<Longrightarrow> count_list (unique xs) v = (if truthy v \<and> v \<in> set xs then 1 else 0)"
  by (simp add: unique_first_occurrences count_first_occurrences)

lemma column_returns:
  "list_all (\<lambda>r. r \<noteq> Undefined \<and> r \<noteq> Null) rows \<Longrightarrow>
   \<exists>vs. map (\<lambda>r. field r name) rows = map Inr vs"
proof (induction rows)
  case Nil
  then show ?case by simp
next
  case (Cons r rows)
  then obtain vs where "map (\<lambda>r. field r name) rows = map Inr vs" by auto
  moreover from Cons.prems obtain v where "field r name = Inr v"
    using field_returns [of r name] by auto
  ultimately have "map (\<lambda>r. field r name) (r # rows) = map Inr (v # vs)" by simp
  then show ?case by blast
qed

text \<open>
  C9. On a list of rows none of which is \<^verbatim>\<open>null\<close> or \<^verbatim>\<open>undefined\<close>,
  \<^verbatim>\<open>formatContexts\<close> returns, and each of its three lists is made from its own column
  alone: it holds the occurrences that are truthy (for a string: non-empty) and the first
  of their value, in the order of the input, so that every primitive value of the column
  that is truthy is in the list exactly once, and no other primitive is.
\<close>

theorem formatContexts_first_occurrences:
  assumes "list_all (\<lambda>r. r \<noteq> Undefined \<and> r \<noteq> Null) rows"
  shows "\<exists>c cs bs ss. formatContexts rows = Inr c
     \<and> map (\<lambda>r. field r ''customer'') rows = map Inr cs
     \<and> map (\<lambda>r. field r ''brand'') rows = map Inr bs
     \<and> map (\<lambda>r. field r ''season'') rows = map Inr ss
     \<and> customers c = first_occurrences [] cs
     \<and> brands c = first_occurrences [] bs
     \<and> seasons c = first_occurrences [] ss
     \<and> (\<forall>v. primitive v \<longrightarrow>
           count_list (customers c) v = (if truthy v \<and> v \<in> set cs then 1 else 0)
         \<and> count_list (brands c) v = (if truthy v \<and> v \<in> set bs then 1 else 0)
         \<and> count_list (seasons c) v = (if truthy v \<and> v \<in> set ss then 1 else 0))"
proof -
  obtain cs where cs: "map (\<lambda>r. field r ''customer'') rows = map Inr cs"
    using column_returns [OF assms] by blast
  obtain bs where bs: "map (\<lambda>r. field r ''brand'') rows = map Inr bs"
    using column_returns [OF assms] by blast
  obtain ss where ss: "map (\<lambda>r. field r ''season'') rows = map Inr ss"
    using column_returns [OF assms] by blast
  let ?c = "\<lparr>customers = unique cs, brands = unique bs, seasons = unique ss\<rparr>"
  have "sequence (map Inr cs) = Inr cs" "sequence (map Inr bs) = Inr bs"
    "sequence (map Inr ss) = Inr ss"
    by (simp_all add: sequence_Inr_iff)
  then have "formatContexts rows = Inr ?c"
    by (simp add: formatContexts_def cs bs ss and_then_def)
  moreover have "customers ?c = first_occurrences [] cs" "brands ?c = first_occurrences [] bs"
    "seasons ?c = first_occurrences [] ss"
    by (simp_all add: unique_first_occurrences)
  moreover have "\<forall>v. primitive v \<longrightarrow>
           count_list (customers ?c) v = (if truthy v \<and> v \<in> set cs then 1 else 0)
         \<and> count_list (brands ?c) v = (if truthy v \<and> v \<in> set bs then 1 else 0)
         \<and> count_list (seasons ?c) v = (if truthy v \<and> v \<in> set ss then 1 else 0)"
    by (simp add: count_unique)
  ultimately show ?thesis using cs bs ss by blast
qed

text \<open>
  An instance: the built-in sample records, where the customer of the first row comes back
  in the fourth.
\<close>

theorem formatContexts_first_occurrences_witness:
  "list_all (\<lambda>r. r \<noteq> Undefined \<and> r \<noteq> Null) sampleRecords
   \<and> formatContexts sampleRecords
     = Inr \<lparr>customers = [Str ''Northwind Outfitters'', Str ''Summit Stores'', Str ''Harbor Co-op'',
                         Str ''Metro Sports''],
            brands = [Str ''ActiveLife'', Str ''UrbanFlex'', Str ''TrailWorks''],
            seasons = [Str ''Spring'', Str ''Summer'', Str ''Holiday'']\<rparr>
   \<and> (\<exists>c cs. formatContexts sampleRecords = Inr c
         \<and> map (\<lambda>r. field r ''customer'') sampleRecords = map Inr cs
         \<and> customers c = first_occurrences [] cs
         \<and> count_list (customers c) (Str ''Northwind Outfitters'') = 1)"
proof -
  have rows: "list_all (\<lambda>r. r \<noteq> Undefined \<and> r \<noteq> Null) sampleRecords"
    by (simp add: sampleRecords_def)
  have cs: "map (\<lambda>r. field r ''customer'') sampleRecords
      = map Inr [Str ''Northwind Outfitters'', Str ''Summit Stores'', Str ''Harbor Co-op'',
                 Str ''Northwind Outfitters'', Str ''Metro Sports'']"
    by (simp add: sampleRecords_def)
  have result: "formatContexts sampleRecords
     = Inr \<lparr>customers = [Str ''Northwind Outfitters'', Str ''Summit Stores'', Str ''Harbor Co-op'',
                         Str ''Metro Sports''],
            brands = [Str ''ActiveLife'', Str ''UrbanFlex'', Str ''TrailWorks''],
            seasons = [Str ''Spring'', Str ''Summer'', Str ''Holiday'']\<rparr>"
    by (simp add: formatContexts_def sampleRecords_def and_then_def unique_def set_add_def
        same_value_zero_def)
  from formatContexts_first_occurrences [OF rows]
  obtain c cs' where c: "formatContexts sampleRecords = Inr c"
      "map (\<lambda>r. field r ''customer'') sampleRecords = map Inr cs'"
      "customers c = first_occurrences [] cs'"
      "\<forall>v. primitive v \<longrightarrow>
           count_list (customers c) v = (if truthy v \<and> v \<in> set cs' then 1 else 0)"
    by blast
  from c(2) cs have "map Inr cs' = map (Inr :: jsval \<Rightarrow> jsval result)
                [Str ''Northwind Outfitters'', Str ''Summit Stores'', Str ''Harbor Co-op'',
                 Str ''Northwind Outfitters'', Str ''Metro Sports'']"
    by simp
  then have "cs' = [Str ''Northwind Outfitters'', Str ''Summit Stores'', Str ''Harbor Co-op'',
                 Str ''Northwind Outfitters'', Str ''Metro Sports'']"
    by (rule map_injective) (rule inj_Inr)
  with c(4) have "count_list (customers c) (Str ''Northwind Outfitters'') = 1"
    by simp
  with c rows result show ?thesis by blast
qed

section \<open>Properties of the Analysis Orchestrator\<close>

lemma truthy_defined: "truthy v \<Longrightarrow> v \<noteq> Undefined \<and> v \<noteq> Null"
  by (cases v) simp_all

lemma body_defined: "js_or body (Obj []) \<noteq> Undefined \<and> js_or body (Obj []) \<noteq> Null"
  by (rule truthy_defined) (simp add: js_or_def)

text \<open>
  C7. Where the payload \<^verbatim>\<open>salesData\<close> is missing or falsy, the handler answers with the
  status 400 and an error message, whatever the clients are; the table of the audit log
  and the list of the requested completions are as before. The branch of line 238 returns
  before \<^verbatim>\<open>normalizeRecords\<close> is called.
\<close>

theorem analyze_missing_salesData:
  assumes "field (js_or body (Obj [])) ''salesData'' = Inr salesData" and "\<not> truthy salesData"
  shows "analyze B C body W
       = Inr (Response 400 (Obj [(''error'', Str ''Missing salesData payload.'')]), W)"
proof -
  obtain t where t: "field (js_or body (Obj [])) ''analysisType'' = Inr t"
    using field_returns body_defined by blast
  obtain f where f: "field (js_or body (Obj [])) ''filters'' = Inr f"
    using field_returns body_defined by blast
  show ?thesis
    using assms t f by (simp add: analyze_def Let_def and_then_def)
qed

text \<open>An instance: a request whose payload is the empty string.\<close>

theorem analyze_missing_salesData_witness:
  "field (js_or (Obj [(''salesData'', Str []), (''analysisType'', Str ''pipeline'')]) (Obj [])) ''salesData''
     = Inr (Str [])
   \<and> \<not> truthy (Str [])
   \<and> analyze host \<lparr>openaiClient = None, supabaseServiceClient = Some (answers [] True)\<rparr>
       (Obj [(''salesData'', Str []), (''analysisType'', Str ''pipeline'')])
       \<lparr>analysis_logs = [], completions = []\<rparr>
     = Inr (Response 400 (Obj [(''error'', Str ''Missing salesData payload.'')]),
            \<lparr>analysis_logs = [], completions = []\<rparr>)"
proof -
  have h: "field (js_or (Obj [(''salesData'', Str []), (''analysisType'', Str ''pipeline'')]) (Obj [])) ''salesData''
     = Inr (Str [])" "\<not> truthy (Str [])"
    by (simp_all add: js_or_def)
  from analyze_missing_salesData [OF h] h show ?thesis by simp
qed

text \<open>
  C6, as the code has it. Let the payload be truthy and no chat client be configured, and
  let \<^verbatim>\<open>normalizeRecords\<close> and \<^verbatim>\<open>summarizeLocally\<close> return. Then the handler answers
  with the status 503, an error message and, as \<^verbatim>\<open>data\<close>, the summary of the normalized
  records under the filters of the request, which is not empty. It calls
  \<^verbatim>\<open>logAnalysis\<close> once: where a datastore client is configured and stores the row, the
  table of the audit log gains one row, marked as succeeded, whose preview is the first
  500 code units of the summary; otherwise the table is as before.
\<close>

theorem analyze_local_fallback:
  assumes "field (js_or body (Obj [])) ''salesData'' = Inr salesData" and "truthy salesData"
    and "field (js_or body (Obj [])) ''analysisType'' = Inr t"
    and "field (js_or body (Obj [])) ''filters'' = Inr f"
    and "openaiClient C = None"
    and "normalizeRecords B salesData = Inr n"
    and "summarizeLocally B (records n) (if f = Undefined then Obj [] else f) = Inr summary"
  shows "summary \<noteq> []
     \<and> analyze B C body W
       = Inr (Response 503
                (Obj [(''error'', Str ''AI provider is not configured. Add OPENAI_API_KEY to enable insights.''),
                      (''data'', Str summary)]),
              case supabaseServiceClient C of
                None \<Rightarrow> W
              | Some stores \<Rightarrow>
                  if stores \<lparr>analysis_type = (if t = Undefined then Str ''trends'' else t),
                             filters = (if f = Undefined then Obj [] else f),
                             result_preview = take 500 summary,
                             succeeded = True,
                             error_message = None\<rparr>
                  then W\<lparr>analysis_logs := analysis_logs W
                           @ [\<lparr>analysis_type = (if t = Undefined then Str ''trends'' else t),
                                filters = (if f = Undefined then Obj [] else f),
                                result_preview = take 500 summary,
                                succeeded = True,
                                error_message = None\<rparr>]\<rparr>
                  else W)"
proof
  from assms(7) show "summary \<noteq> []" by (rule summarizeLocally_nonempty)
next
  show "analyze B C body W
       = Inr (Response 503
                (Obj [(''error'', Str ''AI provider is not configured. Add OPENAI_API_KEY to enable insights.''),
                      (''data'', Str summary)]),
              case supabaseServiceClient C of
                None \<Rightarrow> W
              | Some stores \<Rightarrow>
                  if stores \<lparr>analysis_type = (if t = Undefined then Str ''trends'' else t),
                             filters = (if f = Undefined then Obj [] else f),
                             result_preview = take 500 summary,
                             succeeded = True,
                             error_message = None\<rparr>
                  then W\<lparr>analysis_logs := analysis_logs W
                           @ [\<lparr>analysis_type = (if t = Undefined then Str ''trends'' else t),
                                filters = (if f = Undefined then Obj [] else f),
                                result_preview = take 500 summary,
                                succeeded = True,
                                error_message = None\<rparr>]\<rparr>
                  else W)"
    using assms
    by (simp add: analyze_def Let_def and_then_def logAnalysis_def split: option.splits)
qed

text \<open>An instance, with a datastore client that stores every row.\<close>

theorem analyze_local_fallback_witness:
  "truthy (Arr [Obj [(''customer'', Str ''X''), (''amount'', Num (Fin 100))]])
   \<and> openaiClient \<lparr>openaiClient = None, supabaseServiceClient = Some (answers [] True)\<rparr> = None
   \<and> analyze host \<lparr>openaiClient = None, supabaseServiceClient = Some (answers [] True)\<rparr>
       (Obj [(''salesData'', Arr [Obj [(''customer'', Str ''X''), (''amount'', Num (Fin 100))]])])
       \<lparr>analysis_logs = [], completions = []\<rparr>
     = Inr (Response 503
              (Obj [(''error'', Str ''AI provider is not configured. Add OPENAI_API_KEY to enable insights.''),
                    (''data'', Str ''AI provider is not configured. Showing a quick local summary instead. No filters applied. Total pipeline value: $100. Top customers: X: $100. Top brands: Unknown Brand: $100. Top seasons/periods: Unspecified: $100.'')]),
            \<lparr>analysis_logs =
               [\<lparr>analysis_type = Str ''trends'', filters = Obj [],
                  result_preview = ''AI provider is not configured. Showing a quick local summary instead. No filters applied. Total pipeline value: $100. Top customers: X: $100. Top brands: Unknown Brand: $100. Top seasons/periods: Unspecified: $100.'',
                  succeeded = True, error_message = None\<rparr>],
             completions = []\<rparr>)"
proof -
  let ?data = "Arr [Obj [(''customer'', Str ''X''), (''amount'', Num (Fin 100))]]"
  let ?body = "Obj [(''salesData'', ?data)]"
  let ?C = "\<lparr>openaiClient = None, supabaseServiceClient = Some (answers [] True)\<rparr>"
  let ?n = "\<lparr>raw = JSON_stringify host ?data,
             records = [\<lparr>customer = Str ''X'', brand = Str ''Unknown Brand'',
                          season = Str ''Unspecified'', stage = Str ''unspecified'',
                          amount = Fin 100, notes' = Str []\<rparr>]\<rparr>"
  let ?summary = "''AI provider is not configured. Showing a quick local summary instead. No filters applied. Total pipeline value: $100. Top customers: X: $100. Top brands: Unknown Brand: $100. Top seasons/periods: Unspecified: $100.''"
  have 1: "field (js_or ?body (Obj [])) ''salesData'' = Inr ?data"
    and 2: "truthy ?data"
    and 3: "field (js_or ?body (Obj [])) ''analysisType'' = Inr Undefined"
    and 4: "field (js_or ?body (Obj [])) ''filters'' = Inr Undefined"
    and 5: "openaiClient ?C = None"
    by (simp_all add: js_or_def)
  have 6: "normalizeRecords host ?data = Inr ?n"
    by (simp add: normalizeRecords_def toRecords_def normalizeItem_def coerced_amount_def
        amount_fields_def and_then_def)
  have l: "toLocaleString host (Fin 100) = ''100''"
    by (simp add: host_def answers_def)
  have 7: "summarizeLocally host (records ?n) (if Undefined = Undefined then Obj [] else Undefined)
      = Inr ?summary"
    by (simp add: l summarizeLocally_def group_step_def js_or_def and_then_def get_property_def
        Object_prototype_def js_add_def amount_or_zero_def set_property_def top_sentence_def
        top_def own_entries_def array_index_def is_digit_def filterSummary_def sort_by_def)
  from analyze_local_fallback [OF 1 2 3 4 5 6 7, of "\<lparr>analysis_logs = [], completions = []\<rparr>"] 2 5
  show ?thesis by (simp add: answers_def)
qed

text \<open>
  C6 as the specification states it fails: \<^verbatim>\<open>logAnalysis\<close> returns at once where no
  datastore client is configured (line 176). The same request is answered with the same
  summary, and no entry of the audit log is written.
\<close>

theorem analyze_without_datastore_logs_nothing:
  "analyze host \<lparr>openaiClient = None, supabaseServiceClient = None\<rparr>
       (Obj [(''salesData'', Arr [Obj [(''customer'', Str ''X''), (''amount'', Num (Fin 100))]])])
       \<lparr>analysis_logs = [], completions = []\<rparr>
     = Inr (Response 503
              (Obj [(''error'', Str ''AI provider is not configured. Add OPENAI_API_KEY to enable insights.''),
                    (''data'', Str ''AI provider is not configured. Showing a quick local summary instead. No filters applied. Total pipeline value: $100. Top customers: X: $100. Top brands: Unknown Brand: $100. Top seasons/periods: Unspecified: $100.'')]),
            \<lparr>analysis_logs = [], completions = []\<rparr>)"
proof -
  have l: "toLocaleString host (Fin 100) = ''100''"
    by (simp add: host_def answers_def)
  have n: "normalizeRecords host (Arr [Obj [(''customer'', Str ''X''), (''amount'', Num (Fin 100))]])
      = Inr \<lparr>raw = JSON_stringify host (Arr [Obj [(''customer'', Str ''X''), (''amount'', Num (Fin 100))]]),
             records = [\<lparr>customer = Str ''X'', brand = Str ''Unknown Brand'',
                          season = Str ''Unspecified'', stage = Str ''unspecified'',
                          amount = Fin 100, notes' = Str []\<rparr>]\<rparr>"
    by (simp add: normalizeRecords_def toRecords_def normalizeItem_def coerced_amount_def
        amount_fields_def and_then_def)
  have s: "summarizeLocally host
       [\<lparr>customer = Str ''X'', brand = Str ''Unknown Brand'', season = Str ''Unspecified'',
          stage = Str ''unspecified'', amount = Fin 100, notes' = Str []\<rparr>] (Obj [])
      = Inr ''AI provider is not configured. Showing a quick local summary instead. No filters applied. Total pipeline value: $100. Top customers: X: $100. Top brands: Unknown Brand: $100. Top seasons/periods: Unspecified: $100.''"
    by (simp add: l summarizeLocally_def group_step_def js_or_def and_then_def get_property_def
        Object_prototype_def js_add_def amount_or_zero_def set_property_def top_sentence_def
        top_def own_entries_def array_index_def is_digit_def filterSummary_def sort_by_def)
  show ?thesis
    by (simp add: analyze_def js_or_def n s and_then_def logAnalysis_def)
qed

end
